theory Spec2Isabelle
  imports Main
begin

section \<open>Document Q&A application: a shallow embedding of app.py\<close>

text \<open>
  The application is a Streamlit script. Everything it does beyond computing values is
  made explicit here:
  \<^item> a Python exception is a value of type \<open>exn\<close>, carrying what \<open>str(e)\<close> returns;
    a computation that may raise returns \<open>exn + 'a\<close> (\<open>Inl\<close> the exception);
  \<^item> every call into the user interface and every call of the completion endpoint is
    an \<open>event\<close>; a computation returns the list of events it caused, in order;
  \<^item> the libraries the script calls (the secrets store, the process environment, the
    Anthropic client, the PDF reader) are not part of the repository: their behaviour is
    a parameter (\<open>world\<close>, \<open>uploaded_file\<close>), so every theorem holds for each of
    their behaviours;
  \<^item> \<open>st.session_state\<close> is a record that is passed in and returned.

  A Python \<open>str\<close> is modelled by \<open>string\<close>, one \<open>char\<close> for each character: the
  model covers text whose characters are below 256. Some of the user-interface labels of the source open with
  a pictograph and a space; the pictograph lies outside that range, and the labels below
  start after the space. No property stated here depends on how a label opens.
\<close>

subsection \<open>Python values, exceptions, events\<close>

datatype exn = Exception (str: string)

text \<open>
  The values a credential source can hold. The environment gives \<open>None\<close> or a \<open>str\<close>;
  the secrets store is a parsed TOML file and gives whatever the file holds under the key:
  a string, an integer, a boolean, an array, a table, or a value of another kind (a
  float, a date), which \<open>PyOther\<close> stands for by its \<open>repr\<close> and its truth value.
  \<open>truthy\<close> is Python's truth test, \<open>is_str\<close> is \<open>isinstance(v, str)\<close>.
\<close>

datatype pyval =
    PyNone
  | PyStr string
  | PyInt int
  | PyBool bool
  | PyList "pyval list"
  | PyDict "(string \<times> pyval) list"
  | PyOther string bool

fun truthy :: "pyval \<Rightarrow> bool" where
  "truthy PyNone = False"
| "truthy (PyStr s) = (s \<noteq> [])"
| "truthy (PyInt n) = (n \<noteq> 0)"
| "truthy (PyBool b) = b"
| "truthy (PyList xs) = (xs \<noteq> [])"
| "truthy (PyDict kvs) = (kvs \<noteq> [])"
| "truthy (PyOther r b) = b"

fun is_str :: "pyval \<Rightarrow> bool" where
  "is_str (PyStr s) = True"
| "is_str _ = False"

record message =
  role :: string
  content :: string

record request =
  model :: string
  max_tokens :: nat
  messages :: "message list"

text \<open>
  A content segment of a response either has a \<open>text\<close> attribute or reading it raises
  (a segment of another kind).
\<close>

datatype content_block = TextBlock string | OtherBlock exn

fun block_text :: "content_block \<Rightarrow> exn + string" where
  "block_text (TextBlock t) = Inr t"
| "block_text (OtherBlock e) = Inl e"

record response =
  blocks :: "content_block list"

record client =
  messages_create :: "request \<Rightarrow> exn + response"

record world =
  st_secrets :: "exn + pyval"
  environ :: "string option"
  Anthropic :: "pyval \<Rightarrow> exn + client"

text \<open>\<open>os.getenv("ANTHROPIC_API_KEY")\<close>: the variable's string, or \<open>None\<close> when it is unset.\<close>

definition os_getenv :: "world \<Rightarrow> pyval" where
  "os_getenv w = (case environ w of None \<Rightarrow> PyNone | Some s \<Rightarrow> PyStr s)"

text \<open>
  \<open>st_secrets\<close> is the outcome of \<open>st.secrets["ANTHROPIC_API_KEY"]\<close>, \<open>environ\<close>
  the entry of the process environment for \<open>ANTHROPIC_API_KEY\<close> (after \<open>load_dotenv\<close>),
  \<open>Anthropic\<close> the client constructor.

  \<open>Query_claude d q\<close> marks an entry into \<open>query_claude\<close> with these arguments;
  \<open>Messages_create r\<close> is a call of \<open>client.messages.create\<close>. The other events are the
  calls of the Streamlit functions of the same name.
\<close>

datatype event =
    St_title string
  | St_write string
  | St_file_uploader string
  | St_spinner string
  | St_success string
  | St_info string
  | St_warning string
  | St_error string
  | St_expander string
  | St_text_area string string
  | St_divider
  | St_subheader string
  | St_text_input string
  | St_button string
  | St_stop
  | Query_claude string string
  | Messages_create request

subsection \<open>Computations: a result or an exception, and the events caused\<close>

type_synonym 'a comp = "(exn + 'a) \<times> event list"

definition ret :: "'a \<Rightarrow> 'a comp" where
  "ret x = (Inr x, [])"

definition emit :: "event \<Rightarrow> unit comp" where
  "emit ev = (Inr (), [ev])"

definition lift :: "exn + 'a \<Rightarrow> 'a comp" where
  "lift r = (r, [])"

text \<open>Sequencing: an exception of the first part skips the second.\<close>

definition cbind :: "'a comp \<Rightarrow> ('a \<Rightarrow> 'b comp) \<Rightarrow> 'b comp" where
  "cbind m f =
     (case m of
        (Inl e, tr) \<Rightarrow> (Inl e, tr)
      | (Inr x, tr) \<Rightarrow> (case f x of (r, tr') \<Rightarrow> (r, tr @ tr')))"

text \<open>\<open>try: m except Exception as e: h e\<close>.\<close>

definition try_except :: "'a comp \<Rightarrow> (exn \<Rightarrow> 'a comp) \<Rightarrow> 'a comp" where
  "try_except m h =
     (case m of
        (Inl e, tr) \<Rightarrow> (case h e of (r, tr') \<Rightarrow> (r, tr @ tr'))
      | (Inr x, tr) \<Rightarrow> (Inr x, tr))"

definition result :: "'a comp \<Rightarrow> exn + 'a" where
  "result m = fst m"

definition events :: "'a comp \<Rightarrow> event list" where
  "events m = snd m"

subsection \<open>Strings: newline, \<open>str.split()\<close>, \<open>str(n)\<close>\<close>

definition newline :: char where
  "newline = CHR 0x0A"

text \<open>The characters below 256 for which \<open>str.isspace\<close> holds.\<close>

definition isspace :: "char \<Rightarrow> bool" where
  "isspace c = ((of_char c :: nat) \<in> set [9, 10, 11, 12, 13, 28, 29, 30, 31, 32, 133, 160])"

text \<open>
  \<open>s.split()\<close> with no argument: the maximal runs of characters that are not
  whitespace. \<open>cur\<close> is the run being read.
\<close>

fun split_loop :: "string \<Rightarrow> string \<Rightarrow> string list" where
  "split_loop cur [] = (if cur = [] then [] else [cur])"
| "split_loop cur (c # cs) =
     (if isspace c then (if cur = [] then split_loop [] cs else cur # split_loop [] cs)
      else split_loop (cur @ [c]) cs)"

definition split :: "string \<Rightarrow> string list" where
  "split s = split_loop [] s"

definition digit :: "nat \<Rightarrow> char" where
  "digit d = char_of (48 + d)"

fun str_nat :: "nat \<Rightarrow> string" where
  "str_nat n = (if n < 10 then [digit n] else str_nat (n div 10) @ [digit (n mod 10)])"

declare str_nat.simps [simp del]

subsection \<open>\<open>get_api_key\<close>\<close>

text \<open>
  The \<open>try\<close> block either returns from the function (\<open>Some v\<close>) or falls through
  (\<open>None\<close>); its handler writes a debug line and falls through.
\<close>

definition get_api_key :: "world \<Rightarrow> pyval comp" where
  "get_api_key w =
     cbind
       (try_except
          (cbind (lift (st_secrets w))
             (\<lambda>api_key. if truthy api_key then ret (Some api_key) else ret None))
          (\<lambda>e. cbind (emit (St_write (''Debug: Secrets error: '' @ str e))) (\<lambda>_. ret None)))
       (\<lambda>returned.
          case returned of
            Some v \<Rightarrow> ret v
          | None \<Rightarrow>
              (let env_key = os_getenv w
               in if truthy env_key then ret env_key else ret PyNone))"

subsection \<open>\<open>extract_text_from_pdf\<close>\<close>

text \<open>
  An uploaded file has a name; \<open>PdfReader\<close> is the outcome of opening it with
  \<open>PyPDF2.PdfReader\<close>: an exception, or the pages, each page being the outcome of its
  \<open>extract_text()\<close>.
\<close>

type_synonym page = "exn + string"

record uploaded_file =
  name :: string
  PdfReader :: "exn + page list"

fun extract_loop :: "string \<Rightarrow> page list \<Rightarrow> exn + string" where
  "extract_loop text [] = Inr text"
| "extract_loop text (page # pages) =
     (case page of
        Inl e \<Rightarrow> Inl e
      | Inr t \<Rightarrow> extract_loop (text @ t @ [newline]) pages)"

definition extract_text_from_pdf :: "uploaded_file \<Rightarrow> exn + string" where
  "extract_text_from_pdf pdf_file =
     (case PdfReader pdf_file of
        Inl e \<Rightarrow> Inl e
      | Inr pages \<Rightarrow> extract_loop [] pages)"

text \<open>
  The specification's wording, for comparison: the texts in order, each two neighbours
  separated by exactly one newline.
\<close>

fun separated_by_newline :: "string list \<Rightarrow> string" where
  "separated_by_newline [] = []"
| "separated_by_newline [t] = t"
| "separated_by_newline (t # u # ts) = t @ [newline] @ separated_by_newline (u # ts)"

subsection \<open>\<open>query_claude\<close>\<close>

definition prompt :: "string \<Rightarrow> string \<Rightarrow> string" where
  "prompt document_text question =
     ''Based on the following document content, please answer the question. If the answer cannot be found in the document, please say so.''
     @ [newline, newline]
     @ ''Document content:'' @ [newline]
     @ document_text @ [newline, newline]
     @ ''Question: '' @ question @ [newline, newline]
     @ ''Answer:''"

definition make_request :: "string \<Rightarrow> string \<Rightarrow> request" where
  "make_request document_text question =
     \<lparr>model = ''claude-3-haiku-20240307'',
      max_tokens = 1000,
      messages = [\<lparr>role = ''user'', content = prompt document_text question\<rparr>]\<rparr>"

text \<open>\<open>xs[0]\<close>: an empty list raises IndexError.\<close>

definition first :: "'a list \<Rightarrow> exn + 'a" where
  "first xs = (case xs of [] \<Rightarrow> Inl (Exception ''list index out of range'') | x # _ \<Rightarrow> Inr x)"

definition query_claude_try :: "world \<Rightarrow> string \<Rightarrow> string \<Rightarrow> string comp" where
  "query_claude_try w document_text question =
     cbind (get_api_key w) (\<lambda>api_key.
     cbind (lift (Anthropic w api_key)) (\<lambda>client.
     cbind (emit (Messages_create (make_request document_text question))) (\<lambda>_.
     cbind (lift (messages_create client (make_request document_text question))) (\<lambda>response.
     cbind (lift (first (blocks response))) (\<lambda>block.
     lift (block_text block))))))"

definition query_error :: "exn \<Rightarrow> string" where
  "query_error e = ''Error querying Claude: '' @ str e"

definition query_claude :: "world \<Rightarrow> string \<Rightarrow> string \<Rightarrow> string comp" where
  "query_claude w document_text question =
     cbind (emit (Query_claude document_text question)) (\<lambda>_.
     try_except (query_claude_try w document_text question)
       (\<lambda>e. ret (query_error e)))"

text \<open>The requests sent to the completion endpoint, read off the events.\<close>

fun requests :: "event list \<Rightarrow> request list" where
  "requests [] = []"
| "requests (Messages_create r # evs) = r # requests evs"
| "requests (_ # evs) = requests evs"

subsection \<open>\<open>main\<close>\<close>

text \<open>A field of the session state is \<open>None\<close> while its key is absent.\<close>

record session_state =
  document_text :: "string option"
  document_name :: "string option"

text \<open>
  What the user did before this run of the script: the file in the uploader, the text in
  the question field, whether the button was clicked.
\<close>

record inputs =
  uploaded :: "uploaded_file option"
  question_field :: string
  ask_clicked :: bool

definition main_init :: "session_state \<Rightarrow> session_state" where
  "main_init st =
     (let st1 = (if document_text st = None then st\<lparr>document_text := Some []\<rparr> else st)
      in if document_name st1 = None then st1\<lparr>document_name := Some []\<rparr> else st1)"

text \<open>Reading \<open>st.session_state.document_text\<close>: an absent key raises.\<close>

definition get_document_text :: "session_state \<Rightarrow> exn + string" where
  "get_document_text st =
     (case document_text st of
        None \<Rightarrow> Inl (Exception ''st.session_state has no attribute document_text'')
      | Some t \<Rightarrow> Inr t)"

text \<open>Lines 82 and 83: \<open>len(document_text.split())\<close> and \<open>len(document_text)\<close>.\<close>

definition word_count :: "string \<Rightarrow> nat" where
  "word_count text = length (split text)"

definition char_count :: "string \<Rightarrow> nat" where
  "char_count text = length text"

text \<open>Lines 72 to 88: the upload.\<close>

definition main_upload :: "inputs \<Rightarrow> session_state \<Rightarrow> session_state \<times> unit comp" where
  "main_upload inp st =
     (case uploaded inp of
        None \<Rightarrow> (st, ret ())
      | Some uploaded_file \<Rightarrow>
          (case extract_text_from_pdf uploaded_file of
             Inl e \<Rightarrow> (st, (Inl e, [St_spinner ''Processing document...'']))
           | Inr text \<Rightarrow>
               (st\<lparr>document_text := Some text, document_name := Some (name uploaded_file)\<rparr>,
                (Inr (),
                 [St_spinner ''Processing document...'',
                  St_success (''Document '' @ [CHR 0x27] @ name uploaded_file @ [CHR 0x27]
                              @ '' processed successfully!''),
                  St_info (''Document stats: '' @ str_nat (word_count text) @ '' words, ''
                           @ str_nat (char_count text) @ '' characters''),
                  St_expander ''Document Preview'',
                  St_text_area ''First 500 characters:'' (take 500 text)]))))"

text \<open>Lines 99 to 109: what a click on the button runs.\<close>

definition on_ask :: "world \<Rightarrow> string \<Rightarrow> session_state \<Rightarrow> unit comp" where
  "on_ask w question st =
     (if question \<noteq> [] then
        cbind (emit (St_spinner ''Getting answer from Claude...'')) (\<lambda>_.
        try_except
          (cbind (lift (get_document_text st)) (\<lambda>text.
           cbind (query_claude w text question) (\<lambda>answer.
           cbind (emit (St_success ''Answer:'')) (\<lambda>_.
           emit (St_write answer)))))
          (\<lambda>e.
           cbind (emit (St_error (''Error: '' @ str e))) (\<lambda>_.
           emit (St_info ''Make sure you have set your ANTHROPIC_API_KEY in the .env file''))))
      else emit (St_warning ''Please enter a question!''))"

text \<open>Lines 91 to 111: the question section.\<close>

definition main_qa :: "world \<Rightarrow> inputs \<Rightarrow> session_state \<Rightarrow> unit comp" where
  "main_qa w inp st =
     cbind (lift (get_document_text st)) (\<lambda>text.
     if text \<noteq> [] then
       cbind (emit St_divider) (\<lambda>_.
       cbind (emit (St_subheader ''Ask Questions'')) (\<lambda>_.
       cbind (emit (St_text_input ''What would you like to know about the document?'')) (\<lambda>_.
       cbind (emit (St_button ''Ask Claude'')) (\<lambda>_.
       if ask_clicked inp then on_ask w (question_field inp) st else ret ()))))
     else emit (St_info ''Please upload a PDF document to start asking questions''))"

definition main :: "world \<Rightarrow> inputs \<Rightarrow> session_state \<Rightarrow> session_state \<times> unit comp" where
  "main w inp st =
     (case main_upload inp (main_init st) of
        (st', upload) \<Rightarrow>
          (st',
           cbind (emit (St_title ''Document Q&A App'')) (\<lambda>_.
           cbind (emit (St_write ''Upload a PDF document and ask questions about its content!'')) (\<lambda>_.
           cbind (emit (St_file_uploader ''Choose a PDF file'')) (\<lambda>_.
           cbind upload (\<lambda>_.
           main_qa w inp st'))))))"

subsection \<open>The script\<close>

text \<open>
  How a run of the script ends: it reaches its last line, \<open>st.stop()\<close> halts it, or an
  exception leaves it.
\<close>

datatype exit = Completed | Stopped | Uncaught exn

definition exit_of :: "exn + unit \<Rightarrow> exit" where
  "exit_of r = (case r of Inl e \<Rightarrow> Uncaught e | Inr _ \<Rightarrow> Completed)"

definition script :: "world \<Rightarrow> inputs \<Rightarrow> session_state \<Rightarrow> session_state \<times> exit \<times> event list" where
  "script w inp st =
     (case get_api_key w of
        (Inl e, tr) \<Rightarrow> (st, Uncaught e, tr)
      | (Inr api_key, tr) \<Rightarrow>
          if \<not> truthy api_key then
            (st, Stopped,
             tr @ [St_error ''ANTHROPIC_API_KEY not found. Please set it in your .env file or Streamlit secrets'',
                   St_stop])
          else
            (case main w inp st of
               (st', (r, tr')) \<Rightarrow> (st', exit_of r, tr @ tr')))"

subsection \<open>Concrete inputs\<close>

text \<open>
  A local run (no secrets store, the key in the environment) against an endpoint that
  answers; an endpoint whose transport fails; a client that cannot be constructed; a
  machine with no credential at all; a secrets file that holds the key as the integer
  12345 (\<open>ANTHROPIC_API_KEY = 12345\<close>).
\<close>

definition answering_client :: client where
  "answering_client =
     \<lparr>messages_create = (\<lambda>r. Inr \<lparr>blocks = [TextBlock ''It is about the sky.'']\<rparr>)\<rparr>"

definition failing_client :: client where
  "failing_client = \<lparr>messages_create = (\<lambda>r. Inl (Exception ''Connection error.''))\<rparr>"

definition local_world :: world where
  "local_world =
     \<lparr>st_secrets = Inl (Exception ''No secrets found.''),
      environ = Some ''sk-test'',
      Anthropic = (\<lambda>k. Inr answering_client)\<rparr>"

definition offline_world :: world where
  "offline_world =
     \<lparr>st_secrets = Inr (PyStr ''sk-test''),
      environ = None,
      Anthropic = (\<lambda>k. Inr failing_client)\<rparr>"

definition no_client_world :: world where
  "no_client_world =
     \<lparr>st_secrets = Inr (PyStr ''sk-test''),
      environ = None,
      Anthropic = (\<lambda>k. Inl (Exception ''unexpected keyword argument proxies''))\<rparr>"

definition no_key_world :: world where
  "no_key_world =
     \<lparr>st_secrets = Inl (Exception ''No secrets found.''),
      environ = None,
      Anthropic = (\<lambda>k. Inr answering_client)\<rparr>"

definition int_secret_world :: world where
  "int_secret_world =
     \<lparr>st_secrets = Inr (PyInt 12345),
      environ = None,
      Anthropic = (\<lambda>k. Inr answering_client)\<rparr>"

definition sky_state :: session_state where
  "sky_state = \<lparr>document_text = Some ''The sky is blue.'', document_name = Some ''sky.pdf''\<rparr>"

definition fresh_state :: session_state where
  "fresh_state = \<lparr>document_text = None, document_name = None\<rparr>"

definition hello_world_pdf :: uploaded_file where
  "hello_world_pdf = \<lparr>name = ''hello.pdf'', PdfReader = Inr [Inr ''Hello'', Inr ''World'']\<rparr>"

definition zero_page_pdf :: uploaded_file where
  "zero_page_pdf = \<lparr>name = ''empty.pdf'', PdfReader = Inr []\<rparr>"

definition broken_pdf :: uploaded_file where
  "broken_pdf = \<lparr>name = ''broken.pdf'', PdfReader = Inl (Exception ''EOF marker not found'')\<rparr>"

section \<open>Properties\<close>

subsection \<open>Computations and the credential resolver\<close>

lemmas comp_defs = ret_def emit_def lift_def cbind_def try_except_def result_def events_def

text \<open>What \<open>get_api_key\<close> computes, written without the handler.\<close>

lemma get_api_key_eq:
  "get_api_key w =
     (case st_secrets w of
        Inl e \<Rightarrow> (Inr (if truthy (os_getenv w) then os_getenv w else PyNone),
                  [St_write (''Debug: Secrets error: '' @ str e)])
      | Inr v \<Rightarrow> (Inr (if truthy v then v else if truthy (os_getenv w) then os_getenv w else PyNone), []))"
  by (simp add: get_api_key_def comp_defs Let_def split: sum.splits)

lemma get_api_key_returns: "\<exists>k tr. get_api_key w = (Inr k, tr)"
  by (simp add: get_api_key_eq split: sum.splits)

text \<open>
  C5. \<open>get_api_key\<close> raises in no case. When the access to the secrets store raises, or
  yields \<open>None\<close> or the empty string, the exception is not propagated and the function
  goes on to the environment variable and returns its value when that is not empty.
\<close>

theorem get_api_key_falls_through:
  "(\<exists>k. result (get_api_key w) = Inr k)
   \<and> (st_secrets w = Inl e \<or> st_secrets w = Inr PyNone \<or> st_secrets w = Inr (PyStr [])
        \<longrightarrow> truthy (os_getenv w) \<longrightarrow> result (get_api_key w) = Inr (os_getenv w))"
  by (auto simp add: get_api_key_eq result_def split: sum.splits)

theorem get_api_key_falls_through_witness:
  "st_secrets local_world = Inl (Exception ''No secrets found.'')
   \<and> truthy (os_getenv local_world)
   \<and> result (get_api_key local_world) = Inr (PyStr ''sk-test'')"
  using get_api_key_falls_through [of local_world "Exception ''No secrets found.''"]
  by (simp add: local_world_def os_getenv_def)

lemma os_getenv_str: "os_getenv w = PyNone \<or> is_str (os_getenv w)"
  by (simp add: os_getenv_def split: option.splits)

text \<open>
  C9, as the specification states it, fails: the function returns a truthy secret as it
  is, whatever its type. With the key stored as the integer 12345 it returns that
  integer, which is neither a string nor \<open>None\<close>.
\<close>

theorem get_api_key_int_secret_counterexample:
  "result (get_api_key int_secret_world) = Inr (PyInt 12345)
   \<and> \<not> is_str (PyInt 12345)
   \<and> PyInt 12345 \<noteq> PyNone"
  by (simp add: get_api_key_eq int_secret_world_def os_getenv_def result_def)

text \<open>
  C9, amended. \<open>get_api_key\<close> never returns the empty string: whatever the two sources
  hold, it returns \<open>None\<close> or a truthy value. A source whose value is falsy (the empty
  string is) is skipped: the value returned is the first truthy one in the order
  secrets, environment. It is a string, non-empty then, or \<open>None\<close>, or the secret as
  the store holds it.
\<close>

theorem get_api_key_never_empty:
  "\<exists>k. result (get_api_key w) = Inr k \<and> (k = PyNone \<or> truthy k) \<and> k \<noteq> PyStr []
       \<and> k = (case st_secrets w of
                Inl e \<Rightarrow> (if truthy (os_getenv w) then os_getenv w else PyNone)
              | Inr v \<Rightarrow> (if truthy v then v
                         else if truthy (os_getenv w) then os_getenv w else PyNone))
       \<and> (is_str k \<or> k = PyNone \<or> st_secrets w = Inr k)"
  using os_getenv_str [of w]
  by (auto simp add: get_api_key_eq result_def split: sum.splits)

subsection \<open>The text extractor\<close>

lemma extract_loop_ok:
  "extract_loop acc (map Inr ts) = Inr (acc @ concat (map (\<lambda>t. t @ [newline]) ts))"
  by (induction ts arbitrary: acc) simp_all

lemma join_newline:
  "concat (map (\<lambda>t. t @ [newline]) (t # ts)) = separated_by_newline (t # ts) @ [newline]"
  by (induction ts arbitrary: t) simp_all

lemma concat_empty_pages:
  "concat (map (\<lambda>t. t @ [newline]) (replicate k [])) = replicate k newline"
  by (induction k) simp_all

text \<open>
  C6. For a PDF whose pages extract to the texts \<open>ts\<close>, \<open>extract_text_from_pdf\<close> returns
  the texts in page order, each followed by one newline: that is, for at least one page,
  the texts separated by exactly one newline, and one newline at the end. When every one
  of \<open>k\<close> pages yields the empty text the result is \<open>k\<close> newlines and nothing else.
\<close>

theorem extract_text_pages_in_order:
  "extract_text_from_pdf \<lparr>name = n, PdfReader = Inr (map Inr ts)\<rparr>
     = Inr (concat (map (\<lambda>t. t @ [newline]) ts))
   \<and> extract_text_from_pdf \<lparr>name = n, PdfReader = Inr (map Inr (t # ts))\<rparr>
     = Inr (separated_by_newline (t # ts) @ [newline])
   \<and> extract_text_from_pdf \<lparr>name = n, PdfReader = Inr (map Inr (replicate k []))\<rparr>
     = Inr (replicate k newline)"
  using join_newline [of t ts]
  by (simp add: extract_text_from_pdf_def extract_loop_ok concat_empty_pages del: map_replicate)

lemma hello_world_text:
  "extract_text_from_pdf hello_world_pdf = Inr ''Hello\<newline>World\<newline>''"
  by (simp add: extract_text_from_pdf_def hello_world_pdf_def newline_def)

lemma hello_world_words:
  "split ''Hello\<newline>World\<newline>'' = [''Hello'', ''World'']"
  by (simp add: split_def isspace_def)

lemma str_nat_0: "str_nat 0 = ''0''"
  by code_simp

lemma str_nat_2: "str_nat 2 = ''2''"
  by code_simp

lemma str_nat_12: "str_nat 12 = ''12''"
  by code_simp

text \<open>
  C2, as the specification states it, fails: the text extracted from the two pages
  \<open>Hello\<close> and \<open>World\<close> is \<open>Hello\<close>, newline, \<open>World\<close>, newline, and its character
  count is not 11.
\<close>

theorem hello_world_char_count_counterexample:
  "extract_text_from_pdf hello_world_pdf = Inr ''Hello\<newline>World\<newline>''
   \<and> char_count ''Hello\<newline>World\<newline>'' \<noteq> 11"
  by (simp add: hello_world_text char_count_def)

text \<open>
  C2, amended. For the PDF whose two pages extract to \<open>Hello\<close> and \<open>World\<close>,
  \<open>extract_text_from_pdf\<close> returns \<open>Hello\<close>, newline, \<open>World\<close>, newline; the word count
  is 2 and the character count is 12 (each page's newline is counted), and the upload
  displays "Document stats: 2 words, 12 characters".
\<close>

theorem hello_world_stats:
  "extract_text_from_pdf hello_world_pdf = Inr ''Hello\<newline>World\<newline>''
   \<and> word_count ''Hello\<newline>World\<newline>'' = 2
   \<and> char_count ''Hello\<newline>World\<newline>'' = 12
   \<and> St_info ''Document stats: 2 words, 12 characters''
       \<in> set (events (snd (main_upload
             \<lparr>uploaded = Some hello_world_pdf, question_field = q, ask_clicked = b\<rparr> st)))"
proof -
  have w: "word_count ''Hello\<newline>World\<newline>'' = 2"
    by (simp add: word_count_def hello_world_words)
  have c: "char_count ''Hello\<newline>World\<newline>'' = 12"
    by (simp add: char_count_def)
  show ?thesis
    by (simp add: hello_world_text w c main_upload_def events_def str_nat_2 str_nat_12)
qed

subsection \<open>The answer service\<close>

lemma requests_append: "requests (xs @ ys) = requests xs @ requests ys"
  by (induction xs rule: requests.induct) simp_all

lemma get_api_key_no_request: "get_api_key w = (r, tr) \<Longrightarrow> requests tr = []"
  by (auto simp add: get_api_key_eq split: sum.splits)

text \<open>What \<open>query_claude\<close> computes, written without the handler.\<close>

lemma query_claude_eq:
  "query_claude w d q =
     (case get_api_key w of
        (Inl e, tr) \<Rightarrow> (Inr (query_error e), Query_claude d q # tr)
      | (Inr k, tr) \<Rightarrow>
          (case Anthropic w k of
             Inl e \<Rightarrow> (Inr (query_error e), Query_claude d q # tr)
           | Inr c \<Rightarrow>
               (Inr (case messages_create c (make_request d q) of
                       Inl e \<Rightarrow> query_error e
                     | Inr resp \<Rightarrow>
                         (case blocks resp of
                            [] \<Rightarrow> query_error (Exception ''list index out of range'')
                          | TextBlock t # rest \<Rightarrow> t
                          | OtherBlock e # rest \<Rightarrow> query_error e)),
                Query_claude d q # tr @ [Messages_create (make_request d q)])))"
  by (simp add: query_claude_def query_claude_try_def comp_defs first_def
      split: sum.splits prod.splits list.splits content_block.splits)

text \<open>
  C3. For every document text and question, and whatever the libraries do,
  \<open>query_claude\<close> returns a string and never raises. With \<open>k\<close> the credential that
  \<open>get_api_key\<close> returns (it never raises): when the construction of the client, the
  call of the endpoint, the indexing of the response's segments or the reading of the
  first segment's text raises \<open>e\<close>, the string returned is "Error querying Claude: "
  followed by \<open>str(e)\<close>; otherwise it is the text of the first segment.
\<close>

theorem query_claude_never_raises:
  "\<exists>k. result (get_api_key w) = Inr k
     \<and> result (query_claude w d q) =
         Inr (case Anthropic w k of
                Inl e \<Rightarrow> query_error e
              | Inr c \<Rightarrow>
                  (case messages_create c (make_request d q) of
                     Inl e \<Rightarrow> query_error e
                   | Inr resp \<Rightarrow>
                       (case blocks resp of
                          [] \<Rightarrow> query_error (Exception ''list index out of range'')
                        | TextBlock t # rest \<Rightarrow> t
                        | OtherBlock e # rest \<Rightarrow> query_error e)))
     \<and> query_error e = ''Error querying Claude: '' @ str e"
proof -
  obtain k tr where k: "get_api_key w = (Inr k, tr)"
    using get_api_key_returns by blast
  have "result (get_api_key w) = Inr k"
    by (simp add: k result_def)
  moreover have "result (query_claude w d q) =
         Inr (case Anthropic w k of
                Inl e \<Rightarrow> query_error e
              | Inr c \<Rightarrow>
                  (case messages_create c (make_request d q) of
                     Inl e \<Rightarrow> query_error e
                   | Inr resp \<Rightarrow>
                       (case blocks resp of
                          [] \<Rightarrow> query_error (Exception ''list index out of range'')
                        | TextBlock t # rest \<Rightarrow> t
                        | OtherBlock e # rest \<Rightarrow> query_error e)))"
    by (simp add: query_claude_eq k result_def split: sum.splits)
  moreover have "query_error e = ''Error querying Claude: '' @ str e"
    by (simp add: query_error_def)
  ultimately show ?thesis by blast
qed

text \<open>
  The specification's scenario: the question "What is this about?" on the document
  "The sky is blue." with a transport that fails.
\<close>

theorem query_claude_transport_failure:
  "result (query_claude offline_world ''The sky is blue.'' ''What is this about?'')
     = Inr ''Error querying Claude: Connection error.''"
  using query_claude_never_raises [of offline_world "''The sky is blue.''" "''What is this about?''"]
  by (simp add: offline_world_def os_getenv_def failing_client_def query_error_def)

text \<open>
  C8, as the specification states it, fails: when the client cannot be constructed,
  \<open>query_claude\<close> sends no request at all.
\<close>

theorem no_client_no_request_counterexample:
  "requests (events (query_claude no_client_world ''The sky is blue.'' ''What is this about?'')) = []
   \<and> requests (events (query_claude no_client_world ''The sky is blue.'' ''What is this about?''))
       \<noteq> [make_request ''The sky is blue.'' ''What is this about?'']"
  by (simp add: query_claude_eq get_api_key_eq no_client_world_def os_getenv_def events_def)

text \<open>
  C8, amended. An invocation of \<open>query_claude\<close> sends exactly one request when the
  construction of the client succeeds, and none when it raises. The request carries the
  model identifier \<open>claude-3-haiku-20240307\<close>, the maximum output length 1000 and a single
  message of role \<open>user\<close> whose content embeds the document text and the question as
  they are. When the call succeeds and the first segment of the response is a text
  segment, \<open>query_claude\<close> returns that segment's text.
\<close>

theorem query_claude_one_request:
  "\<exists>k. result (get_api_key w) = Inr k
     \<and> requests (events (query_claude w d q)) =
         (case Anthropic w k of Inl e \<Rightarrow> [] | Inr c \<Rightarrow> [make_request d q])
     \<and> model (make_request d q) = ''claude-3-haiku-20240307''
     \<and> max_tokens (make_request d q) = 1000
     \<and> messages (make_request d q) = [\<lparr>role = ''user'', content = prompt d q\<rparr>]
     \<and> prompt d q =
         ''Based on the following document content, please answer the question. If the answer cannot be found in the document, please say so.\<newline>\<newline>Document content:\<newline>''
         @ d @ ''\<newline>\<newline>Question: '' @ q @ ''\<newline>\<newline>Answer:''
     \<and> (\<forall>c resp t rest.
           Anthropic w k = Inr c \<longrightarrow> messages_create c (make_request d q) = Inr resp
           \<longrightarrow> blocks resp = TextBlock t # rest
           \<longrightarrow> result (query_claude w d q) = Inr t)"
proof -
  obtain k tr where k: "get_api_key w = (Inr k, tr)"
    using get_api_key_returns by blast
  have 1: "result (get_api_key w) = Inr k"
    by (simp add: k result_def)
  have 2: "requests (events (query_claude w d q)) =
         (case Anthropic w k of Inl e \<Rightarrow> [] | Inr c \<Rightarrow> [make_request d q])"
    using get_api_key_no_request [OF k]
    by (simp add: query_claude_eq k events_def requests_append split: sum.splits)
  have 3: "model (make_request d q) = ''claude-3-haiku-20240307''
     \<and> max_tokens (make_request d q) = 1000
     \<and> messages (make_request d q) = [\<lparr>role = ''user'', content = prompt d q\<rparr>]"
    by (simp add: make_request_def)
  have 4: "prompt d q =
         ''Based on the following document content, please answer the question. If the answer cannot be found in the document, please say so.\<newline>\<newline>Document content:\<newline>''
         @ d @ ''\<newline>\<newline>Question: '' @ q @ ''\<newline>\<newline>Answer:''"
    by (simp add: prompt_def newline_def)
  have 5: "\<forall>c resp t rest.
           Anthropic w k = Inr c \<longrightarrow> messages_create c (make_request d q) = Inr resp
           \<longrightarrow> blocks resp = TextBlock t # rest
           \<longrightarrow> result (query_claude w d q) = Inr t"
    by (simp add: query_claude_eq k result_def)
  from 1 2 3 4 5 show ?thesis by blast
qed

theorem query_claude_one_request_witness:
  "requests (events (query_claude local_world ''The sky is blue.'' ''What is this about?''))
     = [make_request ''The sky is blue.'' ''What is this about?'']
   \<and> result (query_claude local_world ''The sky is blue.'' ''What is this about?'')
     = Inr ''It is about the sky.''"
  using query_claude_one_request [of local_world "''The sky is blue.''" "''What is this about?''"]
  by (simp add: local_world_def os_getenv_def answering_client_def)

subsection \<open>The session orchestrator\<close>

lemma get_api_key_local:
  "get_api_key local_world = (Inr (PyStr ''sk-test''), [St_write ''Debug: Secrets error: No secrets found.''])"
  by (simp add: get_api_key_eq local_world_def os_getenv_def)

lemma query_claude_local:
  "query_claude local_world d q =
     (Inr ''It is about the sky.'',
      [Query_claude d q, St_write ''Debug: Secrets error: No secrets found.'',
       Messages_create (make_request d q)])"
proof -
  have "Anthropic local_world (PyStr ''sk-test'') = Inr answering_client"
    by (simp add: local_world_def)
  then show ?thesis
    by (simp add: query_claude_eq get_api_key_local answering_client_def)
qed

lemma on_ask_empty: "on_ask w [] st = (Inr (), [St_warning ''Please enter a question!''])"
  by (simp add: on_ask_def emit_def)

text \<open>
  C1, as the specification states it, fails: the guard of the handler is the truth test
  \<open>if question\<close>, and a question that is one space passes it. With a document loaded
  and the button clicked, \<open>query_claude\<close> is called, a request is sent and no warning
  is shown.
\<close>

theorem whitespace_question_counterexample:
  "list_all isspace '' ''
   \<and> on_ask local_world '' '' sky_state =
       (Inr (),
        [St_spinner ''Getting answer from Claude...'',
         Query_claude ''The sky is blue.'' '' '',
         St_write ''Debug: Secrets error: No secrets found.'',
         Messages_create (make_request ''The sky is blue.'' '' ''),
         St_success ''Answer:'',
         St_write ''It is about the sky.''])
   \<and> main_qa local_world \<lparr>uploaded = None, question_field = '' '', ask_clicked = True\<rparr> sky_state
       \<noteq> (Inr (),
          [St_divider, St_subheader ''Ask Questions'',
           St_text_input ''What would you like to know about the document?'',
           St_button ''Ask Claude'',
           St_warning ''Please enter a question!''])"
proof -
  have a: "on_ask local_world '' '' sky_state =
       (Inr (),
        [St_spinner ''Getting answer from Claude...'',
         Query_claude ''The sky is blue.'' '' '',
         St_write ''Debug: Secrets error: No secrets found.'',
         Messages_create (make_request ''The sky is blue.'' '' ''),
         St_success ''Answer:'',
         St_write ''It is about the sky.''])"
    by (simp add: on_ask_def query_claude_local comp_defs get_document_text_def sky_state_def)
  have b: "get_document_text sky_state = Inr ''The sky is blue.''"
    by (simp add: get_document_text_def sky_state_def)
  show ?thesis
    by (simp add: isspace_def a b main_qa_def comp_defs)
qed

lemma main_qa_ask:
  "get_document_text st = Inr t \<Longrightarrow> t \<noteq> [] \<Longrightarrow> ask_clicked inp \<Longrightarrow>
   main_qa w inp st =
     (case on_ask w (question_field inp) st of
        (r, tr) \<Rightarrow>
          (r, [St_divider, St_subheader ''Ask Questions'',
               St_text_input ''What would you like to know about the document?'',
               St_button ''Ask Claude''] @ tr))"
  by (simp add: main_qa_def comp_defs split: prod.splits)

text \<open>The parts of \<open>main\<close> that send nothing when the question is empty.\<close>

lemma main_upload_no_query:
  "Query_claude d q \<notin> set (snd (snd (main_upload inp st)))
   \<and> requests (snd (snd (main_upload inp st))) = []"
  by (simp add: main_upload_def ret_def split: option.splits sum.splits)

lemma main_qa_empty_no_query:
  "question_field inp = [] \<Longrightarrow>
   Query_claude d q \<notin> set (snd (main_qa w inp st)) \<and> requests (snd (main_qa w inp st)) = []"
  by (simp add: main_qa_def on_ask_empty comp_defs split: sum.splits)

lemma main_empty_no_query:
  "question_field inp = [] \<Longrightarrow>
   Query_claude d q \<notin> set (events (snd (main w inp st)))
   \<and> requests (events (snd (main w inp st))) = []"
  using main_upload_no_query [of d q inp "main_init st"]
        main_qa_empty_no_query [of inp d q w "fst (main_upload inp (main_init st))"]
  by (auto simp add: main_def comp_defs requests_append split: prod.splits sum.splits)

text \<open>
  C1, amended. For the empty question, the handler of the button does not call
  \<open>query_claude\<close> and shows the warning "Please enter a question!"; it does so whenever
  a document is loaded and the button is clicked. The session state that the run leaves
  is the one the upload step left, and the run sends no request.
\<close>

theorem empty_question_not_asked:
  "on_ask w [] st = (Inr (), [St_warning ''Please enter a question!''])
   \<and> (get_document_text st = Inr t \<longrightarrow> t \<noteq> [] \<longrightarrow> ask_clicked inp \<longrightarrow> question_field inp = []
        \<longrightarrow> main_qa w inp st =
            (Inr (),
             [St_divider, St_subheader ''Ask Questions'',
              St_text_input ''What would you like to know about the document?'',
              St_button ''Ask Claude'',
              St_warning ''Please enter a question!'']))
   \<and> (question_field inp = [] \<longrightarrow>
        fst (main w inp st) = fst (main_upload inp (main_init st))
        \<and> Query_claude d q \<notin> set (events (snd (main w inp st)))
        \<and> requests (events (snd (main w inp st))) = [])"
  using main_empty_no_query [of inp d q w st]
  by (simp add: on_ask_empty main_qa_ask) (simp add: main_def split: prod.splits)

lemma main_init_loaded: "main_init sky_state = sky_state"
  by (simp add: main_init_def sky_state_def)

lemma sky_text: "get_document_text sky_state = Inr ''The sky is blue.''"
  by (simp add: get_document_text_def sky_state_def)

theorem empty_question_not_asked_witness:
  "get_document_text sky_state = Inr ''The sky is blue.''
   \<and> main_qa local_world \<lparr>uploaded = None, question_field = [], ask_clicked = True\<rparr> sky_state =
       (Inr (),
        [St_divider, St_subheader ''Ask Questions'',
         St_text_input ''What would you like to know about the document?'',
         St_button ''Ask Claude'',
         St_warning ''Please enter a question!''])
   \<and> fst (main local_world \<lparr>uploaded = None, question_field = [], ask_clicked = True\<rparr> sky_state)
       = sky_state
   \<and> requests (events (snd (main local_world
         \<lparr>uploaded = None, question_field = [], ask_clicked = True\<rparr> sky_state))) = []"
  using empty_question_not_asked
          [of local_world sky_state "''The sky is blue.''"
              "\<lparr>uploaded = None, question_field = [], ask_clicked = True\<rparr>"]
  by (simp add: sky_text main_init_loaded main_upload_def)

lemma main_upload_state:
  "uploaded inp = Some f \<Longrightarrow>
   fst (main_upload inp st) =
     (case extract_text_from_pdf f of
        Inl e \<Rightarrow> st
      | Inr text \<Rightarrow> \<lparr>document_text = Some text, document_name = Some (name f)\<rparr>)"
  by (simp add: main_upload_def split: sum.splits)

lemma main_upload_result:
  "uploaded inp = Some f \<Longrightarrow>
   result (snd (main_upload inp st)) =
     (case extract_text_from_pdf f of Inl e \<Rightarrow> Inl e | Inr text \<Rightarrow> Inr ())"
  by (simp add: main_upload_def result_def split: sum.splits)

lemma main_eq:
  "main_upload inp (main_init st) = (st', r, tr) \<Longrightarrow>
   main w inp st =
     (st',
      case r of
        Inl e \<Rightarrow>
          (Inl e,
           [St_title ''Document Q&A App'',
            St_write ''Upload a PDF document and ask questions about its content!'',
            St_file_uploader ''Choose a PDF file''] @ tr)
      | Inr u \<Rightarrow>
          (case main_qa w inp st' of
             (r', tr') \<Rightarrow>
               (r',
                [St_title ''Document Q&A App'',
                 St_write ''Upload a PDF document and ask questions about its content!'',
                 St_file_uploader ''Choose a PDF file''] @ tr @ tr')))"
  by (simp add: main_def comp_defs split: prod.splits sum.splits)

text \<open>
  C4. When a file is in the uploader, the upload step leaves both fields of the session
  state holding the new document's text and name when the extraction succeeds, whatever
  they held before; when the extraction raises, the state is the one the step was
  given (for \<open>main\<close>: the state after the initialisation of absent keys), and the
  exception leaves \<open>main\<close>.
\<close>

theorem upload_overwrites_pair:
  "uploaded inp = Some f \<Longrightarrow>
   fst (main_upload inp st) =
     (case extract_text_from_pdf f of
        Inl e \<Rightarrow> st
      | Inr text \<Rightarrow> \<lparr>document_text = Some text, document_name = Some (name f)\<rparr>)
   \<and> fst (main w inp st) =
     (case extract_text_from_pdf f of
        Inl e \<Rightarrow> main_init st
      | Inr text \<Rightarrow> \<lparr>document_text = Some text, document_name = Some (name f)\<rparr>)
   \<and> result (snd (main w inp st)) =
     (case extract_text_from_pdf f of
        Inl e \<Rightarrow> Inl e
      | Inr text \<Rightarrow> result (main_qa w inp \<lparr>document_text = Some text, document_name = Some (name f)\<rparr>))"
proof -
  assume f: "uploaded inp = Some f"
  obtain st' r tr where u: "main_upload inp (main_init st) = (st', r, tr)"
    by (cases "main_upload inp (main_init st)") auto
  have 1: "fst (main_upload inp st) =
     (case extract_text_from_pdf f of
        Inl e \<Rightarrow> st
      | Inr text \<Rightarrow> \<lparr>document_text = Some text, document_name = Some (name f)\<rparr>)"
    using f by (rule main_upload_state)
  have 2: "st' =
     (case extract_text_from_pdf f of
        Inl e \<Rightarrow> main_init st
      | Inr text \<Rightarrow> \<lparr>document_text = Some text, document_name = Some (name f)\<rparr>)"
    using main_upload_state [OF f, of "main_init st"] by (simp add: u)
  have 3: "r = (case extract_text_from_pdf f of Inl e \<Rightarrow> Inl e | Inr text \<Rightarrow> Inr ())"
    using main_upload_result [OF f, of "main_init st"] by (simp add: u result_def)
  show ?thesis
    using 1 2 3 by (simp add: main_eq [OF u] result_def split: sum.splits prod.splits)
qed

lemma broken_pdf_raises: "extract_text_from_pdf broken_pdf = Inl (Exception ''EOF marker not found'')"
  by (simp add: extract_text_from_pdf_def broken_pdf_def)

lemma hello_world_name: "name hello_world_pdf = ''hello.pdf''"
  by (simp add: hello_world_pdf_def)

theorem upload_overwrites_pair_witness:
  "fst (main local_world \<lparr>uploaded = Some hello_world_pdf, question_field = [], ask_clicked = False\<rparr> sky_state)
     = \<lparr>document_text = Some ''Hello\<newline>World\<newline>'', document_name = Some ''hello.pdf''\<rparr>
   \<and> fst (main local_world \<lparr>uploaded = Some broken_pdf, question_field = [], ask_clicked = False\<rparr> sky_state)
     = sky_state
   \<and> result (snd (main local_world \<lparr>uploaded = Some broken_pdf, question_field = [], ask_clicked = False\<rparr> sky_state))
     = Inl (Exception ''EOF marker not found'')"
proof -
  have a: "uploaded \<lparr>uploaded = Some hello_world_pdf, question_field = [], ask_clicked = False\<rparr>
             = Some hello_world_pdf"
    by simp
  have b: "uploaded \<lparr>uploaded = Some broken_pdf, question_field = [], ask_clicked = False\<rparr>
             = Some broken_pdf"
    by simp
  show ?thesis
    using upload_overwrites_pair [OF a, of sky_state local_world]
          upload_overwrites_pair [OF b, of sky_state local_world]
    by (simp only: hello_world_text broken_pdf_raises hello_world_name main_init_loaded
        sum.case simp_thms)
qed

subsection \<open>The script\<close>

lemma get_api_key_no_title: "get_api_key w = (r, tr) \<Longrightarrow> St_title x \<notin> set tr \<and> St_stop \<notin> set tr"
  by (auto simp add: get_api_key_eq split: sum.splits)

lemma main_starts_with_title:
  "\<exists>tr. events (snd (main w inp st)) = St_title ''Document Q&A App'' # tr"
proof -
  obtain st' r tr where u: "main_upload inp (main_init st) = (st', r, tr)"
    by (cases "main_upload inp (main_init st)") auto
  show ?thesis
    by (simp add: main_eq [OF u] events_def split: sum.splits prod.splits)
qed

text \<open>
  C7. When \<open>get_api_key\<close> returns \<open>None\<close> at the start of the script, the run is halted
  by \<open>st.stop()\<close> after the error message on the missing key has been shown: the session
  state is untouched and \<open>main\<close> is not entered. Every run of \<open>main\<close> begins with the
  title, and the title is not among the events of the halted run.
\<close>

theorem no_credential_halts:
  "result (get_api_key w) = Inr PyNone \<Longrightarrow>
   script w inp st =
     (st, Stopped,
      events (get_api_key w)
      @ [St_error ''ANTHROPIC_API_KEY not found. Please set it in your .env file or Streamlit secrets'',
         St_stop])
   \<and> St_title ''Document Q&A App'' \<notin> set (snd (snd (script w inp st)))
   \<and> (\<exists>tr. events (snd (main w inp st)) = St_title ''Document Q&A App'' # tr)"
proof -
  assume n: "result (get_api_key w) = Inr PyNone"
  obtain tr where k: "get_api_key w = (Inr PyNone, tr)"
    using n by (cases "get_api_key w") (simp add: result_def)
  have 1: "script w inp st =
     (st, Stopped,
      events (get_api_key w)
      @ [St_error ''ANTHROPIC_API_KEY not found. Please set it in your .env file or Streamlit secrets'',
         St_stop])"
    by (simp add: script_def k events_def)
  have 2: "St_title ''Document Q&A App'' \<notin> set (snd (snd (script w inp st)))"
    using get_api_key_no_title [OF k] by (simp add: 1 k events_def)
  show ?thesis
    using 1 2 main_starts_with_title by blast
qed

theorem no_credential_halts_witness:
  "result (get_api_key no_key_world) = Inr PyNone
   \<and> script no_key_world \<lparr>uploaded = Some hello_world_pdf, question_field = ''What?'', ask_clicked = True\<rparr> fresh_state =
     (fresh_state, Stopped,
      [St_write ''Debug: Secrets error: No secrets found.'',
       St_error ''ANTHROPIC_API_KEY not found. Please set it in your .env file or Streamlit secrets'',
       St_stop])"
proof -
  have k: "get_api_key no_key_world = (Inr PyNone, [St_write ''Debug: Secrets error: No secrets found.''])"
    by (simp add: get_api_key_eq no_key_world_def os_getenv_def)
  have n: "result (get_api_key no_key_world) = Inr PyNone"
    by (simp add: k result_def)
  show ?thesis
    using no_credential_halts [OF n, of "\<lparr>uploaded = Some hello_world_pdf, question_field = ''What?'', ask_clicked = True\<rparr>" fresh_state]
    by (simp add: k events_def result_def)
qed

subsection \<open>An empty document\<close>

lemma zero_pages: "extract_text_from_pdf \<lparr>name = n, PdfReader = Inr []\<rparr> = Inr []"
  by (simp add: extract_text_from_pdf_def)

lemma split_empty: "split [] = []"
  by (simp add: split_def)

lemma main_qa_no_document:
  "get_document_text st = Inr [] \<Longrightarrow>
   main_qa w inp st = (Inr (), [St_info ''Please upload a PDF document to start asking questions''])"
  by (simp add: main_qa_def comp_defs)

text \<open>
  C10. While the document text of the session is the empty string, the question section
  shows only the request to upload a document: no question field, no button, no call of
  \<open>query_claude\<close>, whatever the inputs. So an upload whose extraction yields the empty
  string (a PDF with no page is one) reports success and statistics, stores the empty
  text and the name, and ends with the same request to upload a document.
\<close>

theorem empty_text_no_questions:
  "(get_document_text st = Inr [] \<longrightarrow>
      main_qa w inp st = (Inr (), [St_info ''Please upload a PDF document to start asking questions'']))
   \<and> (uploaded inp = Some f \<longrightarrow> extract_text_from_pdf f = Inr [] \<longrightarrow>
        main w inp st =
          (\<lparr>document_text = Some [], document_name = Some (name f)\<rparr>,
           Inr (),
           [St_title ''Document Q&A App'',
            St_write ''Upload a PDF document and ask questions about its content!'',
            St_file_uploader ''Choose a PDF file'',
            St_spinner ''Processing document...'',
            St_success (''Document '' @ [CHR 0x27] @ name f @ [CHR 0x27] @ '' processed successfully!''),
            St_info ''Document stats: 0 words, 0 characters'',
            St_expander ''Document Preview'',
            St_text_area ''First 500 characters:'' [],
            St_info ''Please upload a PDF document to start asking questions'']))
   \<and> extract_text_from_pdf \<lparr>name = n, PdfReader = Inr []\<rparr> = Inr []"
proof -
  have 2: "main w inp st =
          (\<lparr>document_text = Some [], document_name = Some (name f)\<rparr>,
           Inr (),
           [St_title ''Document Q&A App'',
            St_write ''Upload a PDF document and ask questions about its content!'',
            St_file_uploader ''Choose a PDF file'',
            St_spinner ''Processing document...'',
            St_success (''Document '' @ [CHR 0x27] @ name f @ [CHR 0x27] @ '' processed successfully!''),
            St_info ''Document stats: 0 words, 0 characters'',
            St_expander ''Document Preview'',
            St_text_area ''First 500 characters:'' [],
            St_info ''Please upload a PDF document to start asking questions''])"
    if f: "uploaded inp = Some f" and e: "extract_text_from_pdf f = Inr []"
  proof -
    have u: "main_upload inp (main_init st) =
        (\<lparr>document_text = Some [], document_name = Some (name f)\<rparr>,
         Inr (),
         [St_spinner ''Processing document...'',
          St_success (''Document '' @ [CHR 0x27] @ name f @ [CHR 0x27] @ '' processed successfully!''),
          St_info ''Document stats: 0 words, 0 characters'',
          St_expander ''Document Preview'',
          St_text_area ''First 500 characters:'' []])"
      by (simp add: main_upload_def f e word_count_def char_count_def split_empty str_nat_0)
    have q: "get_document_text \<lparr>document_text = Some [], document_name = Some (name f)\<rparr> = Inr []"
      by (simp add: get_document_text_def)
    show ?thesis
      by (simp add: main_eq [OF u] main_qa_no_document [OF q])
  qed
  show ?thesis
    using 2 by (simp add: main_qa_no_document zero_pages)
qed

theorem empty_text_no_questions_witness:
  "get_document_text \<lparr>document_text = Some [], document_name = Some ''empty.pdf''\<rparr> = Inr []
   \<and> extract_text_from_pdf zero_page_pdf = Inr []
   \<and> main local_world \<lparr>uploaded = Some zero_page_pdf, question_field = ''What is this about?'', ask_clicked = True\<rparr> sky_state =
          (\<lparr>document_text = Some [], document_name = Some ''empty.pdf''\<rparr>,
           Inr (),
           [St_title ''Document Q&A App'',
            St_write ''Upload a PDF document and ask questions about its content!'',
            St_file_uploader ''Choose a PDF file'',
            St_spinner ''Processing document...'',
            St_success ''Document 'empty.pdf' processed successfully!'',
            St_info ''Document stats: 0 words, 0 characters'',
            St_expander ''Document Preview'',
            St_text_area ''First 500 characters:'' [],
            St_info ''Please upload a PDF document to start asking questions''])
   \<and> main_qa local_world \<lparr>uploaded = Some zero_page_pdf, question_field = ''What is this about?'', ask_clicked = True\<rparr>
         \<lparr>document_text = Some [], document_name = Some ''empty.pdf''\<rparr>
       = (Inr (), [St_info ''Please upload a PDF document to start asking questions''])"
proof -
  have z: "extract_text_from_pdf zero_page_pdf = Inr []"
    by (simp add: zero_page_pdf_def extract_text_from_pdf_def)
  have n: "name zero_page_pdf = ''empty.pdf''"
    by (simp add: zero_page_pdf_def)
  have q: "get_document_text \<lparr>document_text = Some [], document_name = Some ''empty.pdf''\<rparr> = Inr []"
    by (simp add: get_document_text_def)
  show ?thesis
    using empty_text_no_questions
            [of "\<lparr>document_text = Some [], document_name = Some ''empty.pdf''\<rparr>" local_world
                "\<lparr>uploaded = Some zero_page_pdf, question_field = ''What is this about?'', ask_clicked = True\<rparr>"
                zero_page_pdf]
          empty_text_no_questions
            [of sky_state local_world
                "\<lparr>uploaded = Some zero_page_pdf, question_field = ''What is this about?'', ask_clicked = True\<rparr>"
                zero_page_pdf]
    by (simp add: z n q)
qed

end
